theory Spec2Isabelle
  imports Main
begin

section \<open>Exceptions\<close>

text \<open>
  The exceptions that \<^verbatim>\<open>onelogin/saml/Response.py\<close> raises itself
  (\<^verbatim>\<open>ResponseNameIDError\<close>, \<^verbatim>\<open>ResponseConditionError\<close>, each carrying its message) and
  the ones that reach the caller from the libraries it calls: \<^verbatim>\<open>ValueError\<close> from
  \<^verbatim>\<open>datetime.strptime\<close>, \<^verbatim>\<open>AttributeError\<close> from \<^verbatim>\<open>None.strip()\<close>, and
  \<^verbatim>\<open>XPathEvalError\<close> from lxml. \<open>NotModelled\<close> is not a Python exception: it marks a
  query string outside the fragment of XPath 1.0 that this development gives a meaning to,
  and no theorem below draws a conclusion from it.
\<close>

datatype py_error =
    ValueError
  | AttributeError
  | XPathEvalError
  | ResponseValidationError string
  | ResponseNameIDError string
  | ResponseConditionError string
  | NotModelled

section \<open>The parsed document\<close>

text \<open>
  An lxml element: \<open>tag\<close> in Clark notation (\<^verbatim>\<open>{namespace-uri}local\<close>), the attribute
  dictionary, \<open>node_text\<close> (lxml's \<^verbatim>\<open>.text\<close>: the text before the first child,
  \<^verbatim>\<open>None\<close> when there is none, as for \<^verbatim>\<open><saml:NameID/>\<close>) and the child elements in
  document order.
\<close>

datatype node =
  Element (tag: string) (attrib: "(string \<times> string) list") (node_text: "string option")
    (children: "node list")

text \<open>\<^verbatim>\<open>namespaces = dict(samlp=..., saml=...)\<close>\<close>

definition namespaces :: "(string \<times> string) list" where
  "namespaces =
     [(''samlp'', ''urn:oasis:names:tc:SAML:2.0:protocol''),
      (''saml'', ''urn:oasis:names:tc:SAML:2.0:assertion'')]"

subsection \<open>\<^verbatim>\<open>str.strip()\<close>\<close>

text \<open>
  Strings are byte strings; \<^verbatim>\<open>strip()\<close> without an argument removes the ASCII whitespace
  (space, tab, line feed, vertical tab, form feed, carriage return) at both ends.
\<close>

definition is_space :: "char \<Rightarrow> bool" where
  "is_space c \<longleftrightarrow> c \<in> set [CHR '' '', CHR 0x09, CHR 0x0A, CHR 0x0B, CHR 0x0C, CHR 0x0D]"

definition strip :: "string \<Rightarrow> string" where
  "strip s = rev (dropWhile is_space (rev (dropWhile is_space s)))"

section \<open>The XPath queries\<close>

text \<open>
  The source hands query \<^emph>\<open>strings\<close> to lxml, one of them built by \<^verbatim>\<open>%\<close>-interpolation of
  a caller-supplied name, so the queries are modelled as strings: a lexer, a parser and an
  evaluator for the fragment of XPath 1.0 the source's queries live in. The fragment:
  a location path of child steps, absolute (\<^verbatim>\<open>/a/b\<close>) or relative (\<^verbatim>\<open>a/b\<close>), each step a
  name test \<^verbatim>\<open>prefix:local\<close> or \<^verbatim>\<open>local\<close> with at most one predicate; a predicate is built
  from attribute references \<^verbatim>\<open>@name\<close> and string literals with \<^verbatim>\<open>=\<close>, \<^verbatim>\<open>and\<close>, \<^verbatim>\<open>or\<close>.
  An unterminated string literal is a syntax error of XPath 1.0 whatever surrounds it, and
  an unbound prefix is an error; lxml reports both as \<^verbatim>\<open>XPathEvalError\<close>. Every other
  string outside the fragment is \<open>NotModelled\<close>.
\<close>

datatype token =
    TSlash | TLBrack | TRBrack | TEq
  | TName string
  | TAttr string
  | TLit string

definition ord :: "char \<Rightarrow> nat" where
  "ord c = of_char c"

definition is_name_char :: "char \<Rightarrow> bool" where
  "is_name_char c \<longleftrightarrow>
     (ord CHR ''a'' \<le> ord c \<and> ord c \<le> ord CHR ''z'') \<or>
     (ord CHR ''A'' \<le> ord c \<and> ord c \<le> ord CHR ''Z'') \<or>
     (ord CHR ''0'' \<le> ord c \<and> ord c \<le> ord CHR ''9'') \<or>
     c = CHR ''_'' \<or> c = CHR ''-'' \<or> c = CHR ''.'' \<or> c = CHR '':''"

definition is_control :: "char \<Rightarrow> bool" where
  "is_control c \<longleftrightarrow> ord c < 32 \<and> c \<noteq> CHR 0x09 \<and> c \<noteq> CHR 0x0A \<and> c \<noteq> CHR 0x0D"

definition is_xpath_space :: "char \<Rightarrow> bool" where
  "is_xpath_space c \<longleftrightarrow> c \<in> set [CHR '' '', CHR 0x09, CHR 0x0A, CHR 0x0D]"

text \<open>
  The lexer reads the string once, left to right. \<open>LTop\<close>: between tokens; \<open>LName acc\<close>:
  inside a name; \<open>LAt\<close>: after \<^verbatim>\<open>@\<close>, before the attribute's name; \<open>LAttr acc\<close>: inside the
  attribute's name; \<open>LLit q acc\<close>: inside a literal opened by the quote \<open>q\<close>. The
  accumulators hold the characters read so far, last first.
\<close>

datatype lex_mode = LTop | LName string | LAt | LAttr string | LLit char string

function xlex :: "lex_mode \<Rightarrow> string \<Rightarrow> py_error + token list" where
  "xlex LTop [] = Inr []"
| "xlex (LName acc) [] = Inr [TName (rev acc)]"
| "xlex LAt [] = Inl XPathEvalError"
| "xlex (LAttr acc) [] = Inr [TAttr (rev acc)]"
| "xlex (LLit q acc) [] = Inl XPathEvalError"
| "xlex (LLit q acc) (c # cs) =
     (if c = q then map_sum id ((#) (TLit (rev acc))) (xlex LTop cs)
      else if is_control c then Inl NotModelled
      else xlex (LLit q (c # acc)) cs)"
| "xlex (LName acc) (c # cs) =
     (if is_name_char c then xlex (LName (c # acc)) cs
      else map_sum id ((#) (TName (rev acc))) (xlex LTop (c # cs)))"
| "xlex (LAttr acc) (c # cs) =
     (if is_name_char c then xlex (LAttr (c # acc)) cs
      else map_sum id ((#) (TAttr (rev acc))) (xlex LTop (c # cs)))"
| "xlex LAt (c # cs) =
     (if is_xpath_space c then xlex LAt cs
      else if is_name_char c then xlex (LAttr [c]) cs
      else Inl NotModelled)"
| "xlex LTop (c # cs) =
     (if is_xpath_space c then xlex LTop cs
      else if c = CHR ''/'' then map_sum id ((#) TSlash) (xlex LTop cs)
      else if c = CHR ''['' then map_sum id ((#) TLBrack) (xlex LTop cs)
      else if c = CHR '']'' then map_sum id ((#) TRBrack) (xlex LTop cs)
      else if c = CHR ''='' then map_sum id ((#) TEq) (xlex LTop cs)
      else if c = CHR ''@'' then xlex LAt cs
      else if c = CHR 0x22 \<or> c = CHR 0x27 then xlex (LLit c []) cs
      else if is_name_char c then xlex (LName [c]) cs
      else Inl NotModelled)"
  by pat_completeness auto
termination
  by (relation "measure (\<lambda>(m, s). 2 * length s + (case m of LTop \<Rightarrow> 0 | _ \<Rightarrow> 1))")
     (auto split: lex_mode.splits)

subsection \<open>Names\<close>

text \<open>
  A name test \<^verbatim>\<open>prefix:local\<close> selects the elements whose tag is \<^verbatim>\<open>{uri}local\<close>, the prefix
  looked up in the \<^verbatim>\<open>namespaces\<close> passed with the query. A name without a prefix selects
  elements in no namespace.
\<close>

definition is_name_start :: "char \<Rightarrow> bool" where
  "is_name_start c \<longleftrightarrow>
     (ord CHR ''a'' \<le> ord c \<and> ord c \<le> ord CHR ''z'') \<or>
     (ord CHR ''A'' \<le> ord c \<and> ord c \<le> ord CHR ''Z'') \<or> c = CHR ''_''"

definition is_ncname :: "string \<Rightarrow> bool" where
  "is_ncname s \<longleftrightarrow> (case s of [] \<Rightarrow> False | c # cs \<Rightarrow> is_name_start c \<and> CHR '':'' \<notin> set cs)"

definition clark :: "string \<Rightarrow> string \<Rightarrow> string" where
  "clark uri local = CHR ''{'' # uri @ CHR ''}'' # local"

definition resolve :: "(string \<times> string) list \<Rightarrow> string \<Rightarrow> py_error + string" where
  "resolve ns qname =
     (let prefix = takeWhile (\<lambda>c. c \<noteq> CHR '':'') qname;
          rest = dropWhile (\<lambda>c. c \<noteq> CHR '':'') qname
      in case rest of
           [] \<Rightarrow> if is_ncname prefix then Inr prefix else Inl NotModelled
         | _ # local \<Rightarrow>
             if is_ncname prefix \<and> is_ncname local
             then (case map_of ns prefix of
                     None \<Rightarrow> Inl XPathEvalError
                   | Some uri \<Rightarrow> Inr (clark uri local))
             else Inl NotModelled)"

subsection \<open>Predicates\<close>

datatype xexpr =
    XAttr string
  | XLit string
  | XEq xexpr xexpr
  | XAnd xexpr xexpr
  | XOr xexpr xexpr

datatype item = IOperand xexpr | IAnd | IOr

fun primary :: "token \<Rightarrow> xexpr option" where
  "primary (TAttr n) = (if is_ncname n then Some (XAttr n) else None)"
| "primary (TLit s) = Some (XLit s)"
| "primary _ = None"

fun pred_items :: "token list \<Rightarrow> item list option" where
  "pred_items [] = Some []"
| "pred_items (t # ts) =
     (case t of
        TName opr \<Rightarrow>
          if opr = ''and'' then map_option ((#) IAnd) (pred_items ts)
          else if opr = ''or'' then map_option ((#) IOr) (pred_items ts)
          else None
      | _ \<Rightarrow>
          (case primary t of
             None \<Rightarrow> None
           | Some x \<Rightarrow>
               (case ts of
                  TEq # u # us \<Rightarrow>
                    (case primary u of
                       None \<Rightarrow> None
                     | Some y \<Rightarrow> map_option ((#) (IOperand (XEq x y))) (pred_items us))
                | _ \<Rightarrow> map_option ((#) (IOperand x)) (pred_items ts))))"

text \<open>\<^verbatim>\<open>and\<close> binds tighter than \<^verbatim>\<open>or\<close>: the items are cut at every \<^verbatim>\<open>or\<close>.\<close>

fun or_groups :: "item list \<Rightarrow> item list list" where
  "or_groups [] = [[]]"
| "or_groups (IOr # xs) = [] # or_groups xs"
| "or_groups (x # xs) = (case or_groups xs of [] \<Rightarrow> [[x]] | g # gs \<Rightarrow> (x # g) # gs)"

fun and_chain :: "item list \<Rightarrow> xexpr option" where
  "and_chain [IOperand e] = Some e"
| "and_chain (IOperand e # IAnd # rest) = map_option (XAnd e) (and_chain rest)"
| "and_chain _ = None"

fun or_chain :: "item list list \<Rightarrow> xexpr option" where
  "or_chain [] = None"
| "or_chain [g] = and_chain g"
| "or_chain (g # gs) =
     (case and_chain g of
        None \<Rightarrow> None
      | Some a \<Rightarrow> map_option (XOr a) (or_chain gs))"

definition parse_pred :: "token list \<Rightarrow> xexpr option" where
  "parse_pred ts = (case pred_items ts of None \<Rightarrow> None | Some its \<Rightarrow> or_chain (or_groups its))"

subsection \<open>Location paths\<close>

datatype step = Step (step_tag: string) (step_pred: "xexpr option")

fun split_slash :: "token list \<Rightarrow> token list list" where
  "split_slash [] = [[]]"
| "split_slash (TSlash # ts) = [] # split_slash ts"
| "split_slash (t # ts) = (case split_slash ts of [] \<Rightarrow> [[t]] | g # gs \<Rightarrow> (t # g) # gs)"

definition parse_step :: "(string \<times> string) list \<Rightarrow> token list \<Rightarrow> py_error + step" where
  "parse_step ns ts =
     (case ts of
        [TName n] \<Rightarrow> map_sum id (\<lambda>t. Step t None) (resolve ns n)
      | TName n # TLBrack # rest \<Rightarrow>
          (case rev rest of
             TRBrack # body \<Rightarrow>
               (case parse_pred (rev body) of
                  None \<Rightarrow> Inl NotModelled
                | Some e \<Rightarrow> map_sum id (\<lambda>t. Step t (Some e)) (resolve ns n))
           | _ \<Rightarrow> Inl NotModelled)
      | _ \<Rightarrow> Inl NotModelled)"

fun parse_steps :: "(string \<times> string) list \<Rightarrow> token list list \<Rightarrow> py_error + step list" where
  "parse_steps ns [] = Inr []"
| "parse_steps ns (g # gs) =
     (case parse_step ns g of
        Inl e \<Rightarrow> Inl e
      | Inr s \<Rightarrow> map_sum id ((#) s) (parse_steps ns gs))"

text \<open>The flag says whether the path is absolute (starts at the document node).\<close>

definition parse_path :: "(string \<times> string) list \<Rightarrow> token list \<Rightarrow> py_error + bool \<times> step list" where
  "parse_path ns ts =
     (case ts of
        TSlash # rest \<Rightarrow> map_sum id (Pair True) (parse_steps ns (split_slash rest))
      | _ \<Rightarrow> map_sum id (Pair False) (parse_steps ns (split_slash ts)))"

subsection \<open>Evaluation\<close>

datatype xval = VNodes "string list" | VStr string | VBool bool

fun to_bool :: "xval \<Rightarrow> bool" where
  "to_bool (VNodes vs) = (vs \<noteq> [])"
| "to_bool (VStr s) = (s \<noteq> [])"
| "to_bool (VBool b) = b"

text \<open>
  XPath 1.0 equality: a node-set equals a string when one of its nodes has that string
  value, two node-sets are equal when they share a string value, and a boolean operand
  turns the other one into a boolean.
\<close>

fun xeq :: "xval \<Rightarrow> xval \<Rightarrow> bool" where
  "xeq (VBool a) y = (a = to_bool y)"
| "xeq x (VBool b) = (to_bool x = b)"
| "xeq (VNodes vs) (VNodes ws) = (\<exists>v \<in> set vs. v \<in> set ws)"
| "xeq (VNodes vs) (VStr s) = (s \<in> set vs)"
| "xeq (VStr s) (VNodes vs) = (s \<in> set vs)"
| "xeq (VStr s) (VStr t) = (s = t)"

fun eval_expr :: "node \<Rightarrow> xexpr \<Rightarrow> xval" where
  "eval_expr n (XAttr a) = VNodes (case map_of (attrib n) a of None \<Rightarrow> [] | Some v \<Rightarrow> [v])"
| "eval_expr n (XLit s) = VStr s"
| "eval_expr n (XEq a b) = VBool (xeq (eval_expr n a) (eval_expr n b))"
| "eval_expr n (XAnd a b) = VBool (to_bool (eval_expr n a) \<and> to_bool (eval_expr n b))"
| "eval_expr n (XOr a b) = VBool (to_bool (eval_expr n a) \<or> to_bool (eval_expr n b))"

definition matches :: "step \<Rightarrow> node \<Rightarrow> bool" where
  "matches s n \<longleftrightarrow>
     tag n = step_tag s \<and>
     (case step_pred s of None \<Rightarrow> True | Some e \<Rightarrow> to_bool (eval_expr n e))"

text \<open>One child step, applied to every node of the current node list, in document order.\<close>

definition eval_step :: "node list \<Rightarrow> step \<Rightarrow> node list" where
  "eval_step ns s = concat (map (\<lambda>n. filter (matches s) (children n)) ns)"

definition eval_steps :: "step list \<Rightarrow> node list \<Rightarrow> node list" where
  "eval_steps ss ns = foldl eval_step ns ss"

text \<open>
  \<open>xpath root context expr\<close> is lxml's \<^verbatim>\<open>context.xpath(expr, namespaces=namespaces)\<close> in the
  document whose root element is \<open>root\<close>. An absolute path starts at the document node,
  whose only element child is \<open>root\<close>, whatever \<open>context\<close> is; a relative path starts
  at \<open>context\<close>.
\<close>

definition xpath :: "node \<Rightarrow> node \<Rightarrow> string \<Rightarrow> py_error + node list" where
  "xpath root context expr =
     (case xlex LTop expr of
        Inl e \<Rightarrow> Inl e
      | Inr ts \<Rightarrow>
          (case parse_path namespaces ts of
             Inl e \<Rightarrow> Inl e
           | Inr (absolute, ss) \<Rightarrow>
               (case ss of
                  [] \<Rightarrow> Inl NotModelled
                | s # ss' \<Rightarrow>
                    if absolute then Inr (eval_steps ss' (filter (matches s) [root]))
                    else Inr (eval_steps ss [context]))))"

section \<open>Time\<close>

text \<open>
  A \<^verbatim>\<open>datetime\<close> is an instant with microsecond resolution: the number of microseconds
  since \<^verbatim>\<open>0001-01-01T00:00:00\<close>. The comparisons and the subtraction of a \<^verbatim>\<open>timedelta\<close>
  that the source uses are integer comparison and subtraction under this reading; the
  bounds of the type (years 1 to 9999) are not modelled.
\<close>

type_synonym datetime = int

definition timedelta :: "int \<Rightarrow> int \<Rightarrow> int \<Rightarrow> int" where
  "timedelta days seconds microseconds = (days * 86400 + seconds) * 1000000 + microseconds"

text \<open>
  \<^verbatim>\<open>datetime.strptime(string, format)\<close> and \<^verbatim>\<open>datetime.strftime(format)\<close> belong to the
  standard library, not to the program: the program is modelled over any pair of them.
  Section \<open>CPython's strptime and strftime\<close> gives the pair used in the examples.
\<close>

record stdlib =
  strptime :: "string \<Rightarrow> string \<Rightarrow> py_error + datetime"
  strftime :: "datetime \<Rightarrow> string \<Rightarrow> string"

definition whole_fmt :: string where
  "whole_fmt = ''%Y-%m-%dT%H:%M:%SZ''"

definition frac_fmt :: string where
  "frac_fmt = ''%Y-%m-%dT%H:%M:%S.%fZ''"

section \<open>The class \<^verbatim>\<open>Response\<close>\<close>

text \<open>
  The fields that \<^verbatim>\<open>__init__\<close> sets: the root element of the decoded and parsed
  message, the fingerprint handed to the verifier, and the expected issuer (\<^verbatim>\<open>None\<close> by
  default).
\<close>

record response =
  document :: node
  signature :: string
  issuer :: "string option"

text \<open>
  \<^verbatim>\<open>_parse_datetime\<close>: \<^verbatim>\<open>except ValueError\<close> catches the failure of the first
  \<^verbatim>\<open>strptime\<close> only; whatever the second one raises reaches the caller.
\<close>

definition parse_datetime :: "stdlib \<Rightarrow> string \<Rightarrow> py_error + datetime" where
  "parse_datetime lib dt =
     (case strptime lib dt whole_fmt of
        Inr t \<Rightarrow> Inr t
      | Inl ValueError \<Rightarrow> strptime lib dt frac_fmt
      | Inl e \<Rightarrow> Inl e)"



text \<open>
  \<^verbatim>\<open>'...Attribute[@Name="%s"]/saml:AttributeValue' % attribute_name\<close>: the name is pasted
  between the two double quotes as it is.
\<close>

definition attribute_query :: "string \<Rightarrow> string" where
  "attribute_query attribute_name =
     ''/samlp:Response/saml:Assertion/saml:AttributeStatement/saml:Attribute[@Name='' @
     [CHR 0x22] @ attribute_name @ [CHR 0x22] @ '']/saml:AttributeValue''"

text \<open>\<^verbatim>\<open>[n.text.strip() for n in result]\<close>: the first node without text raises.\<close>

fun strip_texts :: "node list \<Rightarrow> py_error + string list" where
  "strip_texts [] = Inr []"
| "strip_texts (n # ns) =
     (case node_text n of
        None \<Rightarrow> Inl AttributeError
      | Some t \<Rightarrow> map_sum id ((#) (strip t)) (strip_texts ns))"

definition get_assertion_attribute_value :: "response \<Rightarrow> string \<Rightarrow> py_error + string list" where
  "get_assertion_attribute_value r attribute_name =
     (case xpath (document r) (document r) (attribute_query attribute_name) of
        Inl e \<Rightarrow> Inl e
      | Inr result \<Rightarrow> strip_texts result)"

subsection \<open>\<^verbatim>\<open>is_valid\<close>\<close>

definition conditions_query :: string where
  "conditions_query = ''/samlp:Response/saml:Assertion/saml:Conditions''"

definition audience_query :: string where
  "audience_query =
     ''/samlp:Response/saml:Assertion/saml:Conditions/saml:AudienceRestriction/saml:Audience''"

text \<open>\<^verbatim>\<open>if self._issuer:\<close> holds for a string that is neither \<^verbatim>\<open>None\<close> nor empty.\<close>

definition truthy :: "string option \<Rightarrow> bool" where
  "truthy s \<longleftrightarrow> (case s of None \<Rightarrow> False | Some v \<Rightarrow> v \<noteq> [])"

text \<open>
  The body of \<^verbatim>\<open>for condition in conditions\<close>, on the pair
  \<open>(foundCondition, fountConditionAndAudience)\<close>. A \<^verbatim>\<open>continue\<close> returns the pair as it
  is; an exception leaves the loop. \<^verbatim>\<open>audienceValues\<close> holds the \<^verbatim>\<open>.text\<close> of each node
  found, \<^verbatim>\<open>None\<close> included.
\<close>

definition condition_body ::
  "stdlib \<Rightarrow> response \<Rightarrow> datetime \<Rightarrow> node \<Rightarrow> bool \<times> bool \<Rightarrow> py_error + bool \<times> bool" where
  "condition_body lib r now condition flags =
     (let not_before = map_of (attrib condition) ''NotBefore'';
          not_on_or_after = map_of (attrib condition) ''NotOnOrAfter'';
          not_before = (case not_before of
                          None \<Rightarrow> strftime lib (now - timedelta 0 5 0) whole_fmt
                        | Some s \<Rightarrow> s)
      in case not_on_or_after of
           None \<Rightarrow> Inr flags
         | Some not_on_or_after \<Rightarrow>
             (case parse_datetime lib not_before of
                Inl e \<Rightarrow> Inl e
              | Inr not_before \<Rightarrow>
                  (case parse_datetime lib not_on_or_after of
                     Inl e \<Rightarrow> Inl e
                   | Inr not_on_or_after \<Rightarrow>
                       if now < not_before then Inr flags
                       else if now \<ge> not_on_or_after then Inr flags
                       else if truthy (issuer r) then
                         (case xpath (document r) condition audience_query of
                            Inl e \<Rightarrow> Inl e
                          | Inr audiences \<Rightarrow>
                              (let audienceValues = map node_text audiences
                               in if issuer r \<in> set audienceValues then Inr (True, True)
                                  else Inr (True, snd flags)))
                       else Inr (True, snd flags))))"

fun conditions_loop ::
  "stdlib \<Rightarrow> response \<Rightarrow> datetime \<Rightarrow> node list \<Rightarrow> bool \<times> bool \<Rightarrow> py_error + bool \<times> bool" where
  "conditions_loop lib r now [] flags = Inr flags"
| "conditions_loop lib r now (condition # conditions) flags =
     (case condition_body lib r now condition flags of
        Inl e \<Rightarrow> Inl e
      | Inr flags' \<Rightarrow> conditions_loop lib r now conditions flags')"

text \<open>
  \<open>is_valid lib r now verifier w\<close>: \<open>now\<close> is what the one call of \<^verbatim>\<open>_clock()\<close> returned.
  The verifier is a function of the world \<open>w\<close> it runs in, which it may change; the world
  that \<open>is_valid\<close> returns shows whether, and how often, the verifier ran.
\<close>

definition is_valid ::
  "stdlib \<Rightarrow> response \<Rightarrow> datetime \<Rightarrow> (node \<Rightarrow> string \<Rightarrow> 'w \<Rightarrow> bool \<times> 'w) \<Rightarrow> 'w \<Rightarrow>
     (py_error + bool) \<times> 'w" where
  "is_valid lib r now verifier w =
     (case xpath (document r) (document r) conditions_query of
        Inl e \<Rightarrow> (Inl e, w)
      | Inr conditions \<Rightarrow>
          (case conditions_loop lib r now conditions (False, False) of
             Inl e \<Rightarrow> (Inl e, w)
           | Inr (foundCondition, fountConditionAndAudience) \<Rightarrow>
               if \<not> foundCondition then (Inl (ResponseConditionError ''Timmig issue''), w)
               else if foundCondition \<and> \<not> fountConditionAndAudience
               then (Inl (ResponseConditionError ''Not valid Audience''), w)
               else (case verifier (document r) (signature r) w of
                       (b, w') \<Rightarrow> (Inr b, w'))))"

section \<open>CPython's strptime and strftime\<close>

text \<open>
  The library pair used in the examples, after CPython's \<^verbatim>\<open>_strptime.py\<close> and
  \<^verbatim>\<open>datetime.py\<close>, for the directives \<^verbatim>\<open>%Y %m %d %H %M %S %f\<close>. \<^verbatim>\<open>strptime\<close> turns the
  format into a regular expression, one alternation per directive, compiled with
  \<^verbatim>\<open>re.IGNORECASE\<close>; takes the first match, in the order of the alternatives; raises
  \<^verbatim>\<open>ValueError\<close> when there is none or when it leaves data unread; and builds the
  \<^verbatim>\<open>datetime\<close>, whose constructor raises \<^verbatim>\<open>ValueError\<close> for a field out of range.
\<close>

definition is_digit :: "char \<Rightarrow> bool" where
  "is_digit c \<longleftrightarrow> 48 \<le> ord c \<and> ord c \<le> 57"

definition digit :: "char \<Rightarrow> nat" where
  "digit c = ord c - 48"

definition number :: "string \<Rightarrow> nat" where
  "number s = foldl (\<lambda>a c. 10 * a + digit c) 0 s"

definition between :: "nat \<Rightarrow> nat \<Rightarrow> char \<Rightarrow> bool" where
  "between lo hi c \<longleftrightarrow> 48 + lo \<le> ord c \<and> ord c \<le> 48 + hi"

text \<open>An alternative of two characters, and one of a single character.\<close>

definition alt2 :: "(char \<Rightarrow> bool) \<Rightarrow> (char \<Rightarrow> bool) \<Rightarrow> string \<Rightarrow> (nat \<times> string) list" where
  "alt2 P Q s =
     (case s of a # b # rest \<Rightarrow> if P a \<and> Q b then [(number [a, b], rest)] else [] | _ \<Rightarrow> [])"

definition alt1 :: "(char \<Rightarrow> bool) \<Rightarrow> string \<Rightarrow> (nat \<times> string) list" where
  "alt1 P s = (case s of a # rest \<Rightarrow> if P a then [(digit a, rest)] else [] | _ \<Rightarrow> [])"

text \<open>The prefixes of a string that are not empty, longest first.\<close>

fun prefixes_desc :: "string \<Rightarrow> string list" where
  "prefixes_desc [] = []"
| "prefixes_desc (c # cs) = map ((#) c) (prefixes_desc cs) @ [[c]]"

text \<open>\<^verbatim>\<open>[0-9]{1,6}\<close>, longest first; the digits read are padded with zeros to six.\<close>

definition re_f :: "string \<Rightarrow> (nat \<times> string) list" where
  "re_f s =
     map (\<lambda>ds. (number (take 6 (ds @ ''000000'')), drop (length ds) s))
       (prefixes_desc (takeWhile is_digit (take 6 s)))"

definition directive :: "char \<Rightarrow> string \<Rightarrow> (nat \<times> string) list" where
  "directive d s =
     (if d = CHR ''Y'' then
        (case s of
           a # b # c # e # rest \<Rightarrow>
             if is_digit a \<and> is_digit b \<and> is_digit c \<and> is_digit e
             then [(number [a, b, c, e], rest)] else []
         | _ \<Rightarrow> [])
      else if d = CHR ''m'' then
        alt2 (between 1 1) (between 0 2) s @ alt2 (between 0 0) (between 1 9) s @
        alt1 (between 1 9) s
      else if d = CHR ''d'' then
        alt2 (between 3 3) (between 0 1) s @ alt2 (between 1 2) is_digit s @
        alt2 (between 0 0) (between 1 9) s @ alt1 (between 1 9) s @
        (case s of
           a # b # rest \<Rightarrow> if a = CHR '' '' \<and> between 1 9 b then [(digit b, rest)] else []
         | _ \<Rightarrow> [])
      else if d = CHR ''H'' then
        alt2 (between 2 2) (between 0 3) s @ alt2 (between 0 1) is_digit s @ alt1 is_digit s
      else if d = CHR ''M'' then
        alt2 (between 0 5) is_digit s @ alt1 is_digit s
      else if d = CHR ''S'' then
        alt2 (between 6 6) (between 0 1) s @ alt2 (between 0 5) is_digit s @ alt1 is_digit s
      else if d = CHR ''f'' then re_f s
      else [])"

definition to_lower :: "char \<Rightarrow> char" where
  "to_lower c =
     (case map_of (zip ''ABCDEFGHIJKLMNOPQRSTUVWXYZ'' ''abcdefghijklmnopqrstuvwxyz'') c of
        None \<Rightarrow> c
      | Some l \<Rightarrow> l)"

definition lit :: "char \<Rightarrow> string \<Rightarrow> string list" where
  "lit c s = (case s of [] \<Rightarrow> [] | x # rest \<Rightarrow> if to_lower x = to_lower c then [rest] else [])"

text \<open>
  All the ways the format matches a prefix of the data, best first: the fields read, each
  under its directive, and the data left.
\<close>

fun re_match :: "string \<Rightarrow> string \<Rightarrow> ((char \<times> nat) list \<times> string) list" where
  "re_match [] s = [([], s)]"
| "re_match (c # fs) s =
     (if c = CHR ''%'' then
        (case fs of
           [] \<Rightarrow> []
         | d # fs' \<Rightarrow>
             concat (map (\<lambda>(v, rest). map (\<lambda>(vs, rest'). ((d, v) # vs, rest')) (re_match fs' rest))
               (directive d s)))
      else concat (map (re_match fs) (lit c s)))"

definition is_leap :: "nat \<Rightarrow> bool" where
  "is_leap year \<longleftrightarrow> year mod 4 = 0 \<and> (year mod 100 \<noteq> 0 \<or> year mod 400 = 0)"

definition days_in_month_tbl :: "nat list" where
  "days_in_month_tbl = [0, 31, 28, 31, 30, 31, 30, 31, 31, 30, 31, 30, 31]"

definition days_in_month :: "nat \<Rightarrow> nat \<Rightarrow> nat" where
  "days_in_month year month =
     (if month = 2 \<and> is_leap year then 29 else days_in_month_tbl ! month)"

definition days_before_year :: "nat \<Rightarrow> nat" where
  "days_before_year year =
     (let y = year - 1 in y * 365 + y div 4 - y div 100 + y div 400)"

definition days_before_month :: "nat \<Rightarrow> nat \<Rightarrow> nat" where
  "days_before_month year month =
     sum_list (take month days_in_month_tbl) + (if month > 2 \<and> is_leap year then 1 else 0)"

definition ymd2ord :: "nat \<Rightarrow> nat \<Rightarrow> nat \<Rightarrow> nat" where
  "ymd2ord year month day = days_before_year year + days_before_month year month + day"

definition field :: "(char \<times> nat) list \<Rightarrow> char \<Rightarrow> nat \<Rightarrow> nat" where
  "field fs d dflt = (case map_of fs d of None \<Rightarrow> dflt | Some v \<Rightarrow> v)"

definition cpython_strptime :: "string \<Rightarrow> string \<Rightarrow> py_error + datetime" where
  "cpython_strptime data_string format =
     (case re_match format data_string of
        [] \<Rightarrow> Inl ValueError
      | (fs, rest) # _ \<Rightarrow>
          if rest \<noteq> [] then Inl ValueError
          else
            (let year = field fs CHR ''Y'' 1900; month = field fs CHR ''m'' 1;
                 day = field fs CHR ''d'' 1; hour = field fs CHR ''H'' 0;
                 minute = field fs CHR ''M'' 0; second = field fs CHR ''S'' 0;
                 fraction = field fs CHR ''f'' 0
             in if year < 1 \<or> day > days_in_month year month \<or> second > 59 then Inl ValueError
                else Inr (((((int (ymd2ord year month day) - 1) * 24 + int hour) * 60
                             + int minute) * 60 + int second) * 1000000 + int fraction)))"

text \<open>\<^verbatim>\<open>_ord2ymd\<close> of \<^verbatim>\<open>datetime.py\<close>: the date of a day number, day 1 being 0001-01-01.\<close>

definition ord2ymd :: "nat \<Rightarrow> nat \<times> nat \<times> nat" where
  "ord2ymd ordinal =
     (let n = ordinal - 1;
          n400 = n div 146097; n = n mod 146097;
          n100 = n div 36524; n = n mod 36524;
          n4 = n div 1461; n = n mod 1461;
          n1 = n div 365; n = n mod 365;
          year = n400 * 400 + 1 + n100 * 100 + n4 * 4 + n1
      in if n1 = 4 \<or> n100 = 4 then (year - 1, 12, 31)
         else
           (let leapyear = (n1 = 3 \<and> (n4 \<noteq> 24 \<or> n100 = 3));
                month = (n + 50) div 32;
                preceding = sum_list (take month days_in_month_tbl)
                              + (if month > 2 \<and> leapyear then 1 else 0)
            in if preceding > n
               then (let month = month - 1;
                         preceding = preceding
                           - (days_in_month_tbl ! month + (if month = 2 \<and> leapyear then 1 else 0))
                     in (year, month, n - preceding + 1))
               else (year, month, n - preceding + 1)))"

definition pad2 :: "nat \<Rightarrow> string" where
  "pad2 n = [''0123456789'' ! (n div 10 mod 10), ''0123456789'' ! (n mod 10)]"

definition pad4 :: "nat \<Rightarrow> string" where
  "pad4 n = pad2 (n div 100) @ pad2 (n mod 100)"

definition pad6 :: "nat \<Rightarrow> string" where
  "pad6 n = pad2 (n div 10000) @ pad4 (n mod 10000)"

text \<open>The date \<open>(year, month, day)\<close> of an instant, and its second of the day.\<close>

definition date_of :: "datetime \<Rightarrow> nat \<times> nat \<times> nat" where
  "date_of t = ord2ymd (nat (t div 1000000 div 86400) + 1)"

definition second_of_day :: "datetime \<Rightarrow> nat" where
  "second_of_day t = nat (t div 1000000 mod 86400)"

text \<open>
  \<open>render t d\<close>: the text of directive \<open>d\<close> for the instant \<open>t\<close>; a character that is no
  directive of the list above is left as it is.
\<close>

definition render :: "datetime \<Rightarrow> char \<Rightarrow> string" where
  "render t d =
     (if d = CHR ''Y'' then pad4 (fst (date_of t))
      else if d = CHR ''m'' then pad2 (fst (snd (date_of t)))
      else if d = CHR ''d'' then pad2 (snd (snd (date_of t)))
      else if d = CHR ''H'' then pad2 (second_of_day t div 3600)
      else if d = CHR ''M'' then pad2 (second_of_day t mod 3600 div 60)
      else if d = CHR ''S'' then pad2 (second_of_day t mod 60)
      else if d = CHR ''f'' then pad6 (nat (t mod 1000000))
      else if d = CHR ''%'' then ''%''
      else [CHR ''%'', d])"

fun cpython_strftime :: "datetime \<Rightarrow> string \<Rightarrow> string" where
  "cpython_strftime t [] = []"
| "cpython_strftime t (c # fs) =
     (if c = CHR ''%'' then
        (case fs of
           [] \<Rightarrow> ''%''
         | d # fs' \<Rightarrow> render t d @ cpython_strftime t fs')
      else c # cpython_strftime t fs)"

definition cpython :: stdlib where
  "cpython = \<lparr> strptime = cpython_strptime, strftime = cpython_strftime \<rparr>"

section \<open>Vocabulary of the properties\<close>

text \<open>
  The element lists that the properties speak about, read off the tree directly:
  \<open>child_elements t n\<close> are the children of \<open>n\<close> with tag \<open>t\<close>, in document order.
\<close>

definition saml :: "string \<Rightarrow> string" where
  "saml local = clark ''urn:oasis:names:tc:SAML:2.0:assertion'' local"

definition samlp :: "string \<Rightarrow> string" where
  "samlp local = clark ''urn:oasis:names:tc:SAML:2.0:protocol'' local"

definition child_elements :: "string \<Rightarrow> node \<Rightarrow> node list" where
  "child_elements t n = filter (\<lambda>c. tag c = t) (children n)"

definition assertions_of :: "node \<Rightarrow> node list" where
  "assertions_of doc =
     (if tag doc = samlp ''Response'' then child_elements (saml ''Assertion'') doc else [])"

text \<open>The \<^verbatim>\<open>Conditions\<close> elements of the document: the \<open>conditions\<close> of \<open>is_valid\<close>.\<close>

definition conditions_of :: "node \<Rightarrow> node list" where
  "conditions_of doc = concat (map (child_elements (saml ''Conditions'')) (assertions_of doc))"

text \<open>The audience values inside one \<^verbatim>\<open>Conditions\<close> element, and those of the whole document.\<close>

definition own_audiences :: "node \<Rightarrow> string option list" where
  "own_audiences c =
     map node_text
       (concat (map (child_elements (saml ''Audience''))
          (child_elements (saml ''AudienceRestriction'') c)))"

definition all_audiences :: "node \<Rightarrow> string option list" where
  "all_audiences doc = concat (map own_audiences (conditions_of doc))"

definition name_id_nodes :: "node \<Rightarrow> node list" where
  "name_id_nodes doc =
     concat (map (child_elements (saml ''NameID''))
       (concat (map (child_elements (saml ''Subject'')) (assertions_of doc))))"

definition attribute_elements :: "node \<Rightarrow> node list" where
  "attribute_elements doc =
     concat (map (child_elements (saml ''Attribute''))
       (concat (map (child_elements (saml ''AttributeStatement'')) (assertions_of doc))))"

definition attribute_values :: "node list \<Rightarrow> node list" where
  "attribute_values attrs = concat (map (child_elements (saml ''AttributeValue'')) attrs)"

text \<open>
  The timestamps of a condition as \<open>is_valid\<close> reads them: the string standing for
  \<^verbatim>\<open>NotBefore\<close> (the formatted \<open>now - 5s\<close> when the attribute is absent), and the window
  \<open>(lower, upper)\<close> of a condition that has \<^verbatim>\<open>NotOnOrAfter\<close> and whose two timestamps
  parse. \<open>well_dated\<close>: the loop body raises no parse error on the condition.
\<close>

definition effective_not_before :: "stdlib \<Rightarrow> datetime \<Rightarrow> node \<Rightarrow> string" where
  "effective_not_before lib now c =
     (case map_of (attrib c) ''NotBefore'' of
        None \<Rightarrow> strftime lib (now - timedelta 0 5 0) whole_fmt
      | Some s \<Rightarrow> s)"

definition window :: "stdlib \<Rightarrow> datetime \<Rightarrow> node \<Rightarrow> (datetime \<times> datetime) option" where
  "window lib now c =
     (case map_of (attrib c) ''NotOnOrAfter'' of
        None \<Rightarrow> None
      | Some na \<Rightarrow>
          (case parse_datetime lib (effective_not_before lib now c) of
             Inl _ \<Rightarrow> None
           | Inr lower \<Rightarrow>
               (case parse_datetime lib na of
                  Inl _ \<Rightarrow> None
                | Inr upper \<Rightarrow> Some (lower, upper))))"

definition in_window :: "stdlib \<Rightarrow> datetime \<Rightarrow> node \<Rightarrow> bool" where
  "in_window lib now c =
     (case window lib now c of None \<Rightarrow> False | Some (lower, upper) \<Rightarrow> lower \<le> now \<and> now < upper)"

definition well_dated :: "stdlib \<Rightarrow> datetime \<Rightarrow> node \<Rightarrow> bool" where
  "well_dated lib now c =
     (map_of (attrib c) ''NotOnOrAfter'' = None \<or> window lib now c \<noteq> None)"

text \<open>
  What \<^verbatim>\<open>strptime\<close> makes of a \<^verbatim>\<open>strftime\<close> in the whole-second format: the instant cut
  to the whole second.
\<close>

definition round_trips :: "stdlib \<Rightarrow> datetime \<Rightarrow> bool" where
  "round_trips lib t \<longleftrightarrow>
     strptime lib (strftime lib t whole_fmt) whole_fmt = Inr (t - t mod 1000000)"

text \<open>\<open>counted\<close>: one pass of the loop body sets \<open>foundCondition\<close>.\<close>

definition counted :: "stdlib \<Rightarrow> response \<Rightarrow> datetime \<Rightarrow> node \<Rightarrow> bool" where
  "counted lib r now c =
     (map_sum id fst (condition_body lib r now c (False, False)) = Inr True)"

text \<open>A string is safe to paste between the double quotes of the attribute query.\<close>

definition plain_name :: "string \<Rightarrow> bool" where
  "plain_name s = list_all (\<lambda>c. c \<noteq> CHR 0x22 \<and> \<not> is_control c) s"


section \<open>Example documents\<close>

definition el :: "string \<Rightarrow> (string \<times> string) list \<Rightarrow> node list \<Rightarrow> node" where
  "el t attrs kids = Element t attrs None kids"

definition leaf :: "string \<Rightarrow> string \<Rightarrow> node" where
  "leaf t s = Element t [] (Some s) []"

definition conditions_el :: "(string \<times> string) list \<Rightarrow> string \<Rightarrow> node" where
  "conditions_el attrs audience =
     el (saml ''Conditions'') attrs
       [el (saml ''AudienceRestriction'') [] [leaf (saml ''Audience'') audience]]"

definition response_el :: "node list \<Rightarrow> node" where
  "response_el kids = el (samlp ''Response'') [] [el (saml ''Assertion'') [] kids]"

text \<open>\<^verbatim>\<open>2011-06-01T12:05:00\<close>, and the clock and verifier doubles of the examples.\<close>

definition t_1205 :: datetime where
  "t_1205 = 63442526700000000"

definition verifier_double :: "bool \<Rightarrow> node \<Rightarrow> string \<Rightarrow> nat \<Rightarrow> bool \<times> nat" where
  "verifier_double answer doc fingerprint calls = (answer, Suc calls)"

text \<open>
  Condition elements: in their window at 12:05:00 (for \<^verbatim>\<open>sp.example.com\<close>, for another
  audience, and with a fractional \<^verbatim>\<open>NotBefore\<close>), expired at 11:00:00, with a
  \<^verbatim>\<open>NotOnOrAfter\<close> that is a date without a time, without \<^verbatim>\<open>NotBefore\<close>, and without
  \<^verbatim>\<open>NotOnOrAfter\<close> (its \<^verbatim>\<open>NotBefore\<close> being no timestamp).
\<close>

definition cond_open :: node where
  "cond_open =
     conditions_el
       [(''NotBefore'', ''2011-06-01T12:00:00Z''), (''NotOnOrAfter'', ''2011-06-01T12:10:00Z'')]
       ''sp.example.com''"

definition cond_other :: node where
  "cond_other =
     conditions_el
       [(''NotBefore'', ''2011-06-01T12:00:00Z''), (''NotOnOrAfter'', ''2011-06-01T12:10:00Z'')]
       ''other.example.com''"

definition cond_frac :: node where
  "cond_frac =
     conditions_el
       [(''NotBefore'', ''2011-06-01T12:00:00.250Z''),
        (''NotOnOrAfter'', ''2011-06-01T12:10:00Z'')]
       ''sp.example.com''"

definition cond_expired :: node where
  "cond_expired =
     conditions_el
       [(''NotBefore'', ''2011-06-01T10:00:00Z''), (''NotOnOrAfter'', ''2011-06-01T11:00:00Z'')]
       ''sp.example.com''"

definition cond_date_only :: node where
  "cond_date_only =
     conditions_el
       [(''NotBefore'', ''2011-06-01T12:00:00Z''), (''NotOnOrAfter'', ''2011-06-02'')]
       ''sp.example.com''"

definition cond_no_lower :: node where
  "cond_no_lower = conditions_el [(''NotOnOrAfter'', ''2011-06-01T12:10:00Z'')] ''sp.example.com''"

definition cond_no_upper :: node where
  "cond_no_upper = conditions_el [(''NotBefore'', ''yesterday'')] ''sp.example.com''"

text \<open>A whole response with one condition, and responses that hold conditions only.\<close>

definition doc_single :: node where
  "doc_single =
     response_el
       [el (saml ''Subject'') [] [leaf (saml ''NameID'') '' user@example.com '' ],
        cond_open,
        el (saml ''AttributeStatement'') []
          [el (saml ''Attribute'') [(''Name'', ''mail'')]
             [leaf (saml ''AttributeValue'') ''a@example.com'',
              leaf (saml ''AttributeValue'') '' b@example.com''],
           el (saml ''Attribute'') [(''Name'', ''role'')]
             [leaf (saml ''AttributeValue'') ''admin'']]]"

definition doc_two_audiences :: node where
  "doc_two_audiences = response_el [cond_other, cond_expired]"

definition doc_any :: node where
  "doc_any = response_el [cond_expired, cond_frac]"

definition doc_date_only :: node where
  "doc_date_only = response_el [cond_date_only]"

definition doc_skipped :: node where
  "doc_skipped = response_el [cond_no_upper, cond_open]"

definition request :: "node \<Rightarrow> string option \<Rightarrow> response" where
  "request doc iss = \<lparr> document = doc, signature = ''fingerprint'', issuer = iss \<rparr>"

text \<open>A document whose \<^verbatim>\<open>NameID\<close> element is empty: \<^verbatim>\<open><saml:NameID/>\<close>.\<close>

definition doc_empty_name_id :: node where
  "doc_empty_name_id =
     response_el [el (saml ''Subject'') [] [el (saml ''NameID'') [] []]]"

text \<open>The name \<^verbatim>\<open>x" or "1"="1\<close>.\<close>

definition crafted_name :: string where
  "crafted_name =
     ''x'' @ [CHR 0x22] @ '' or '' @ [CHR 0x22] @ ''1'' @ [CHR 0x22] @ ''='' @ [CHR 0x22] @ ''1''"

section \<open>What the queries select\<close>

text \<open>
  Each query string of the source, lexed, parsed and evaluated: the fixed paths select the
  element lists of the vocabulary, whatever the context node is.
\<close>

lemmas char_defs = is_xpath_space_def is_name_char_def is_name_start_def ord_def
lemmas parse_defs = parse_path_def parse_step_def resolve_def namespaces_def is_ncname_def
  parse_pred_def

lemma matches_plain: "matches (Step t None) = (\<lambda>c. tag c = t)"
  by (auto simp: matches_def fun_eq_iff)

lemma eval_step_plain: "eval_step ns (Step t None) = concat (map (child_elements t) ns)"
proof -
  have "child_elements t = (\<lambda>n. filter (\<lambda>c. tag c = t) (children n))"
    by (simp add: fun_eq_iff child_elements_def)
  then show ?thesis
    by (simp add: eval_step_def matches_plain)
qed


lemma eval_from_root:
  "eval_steps (Step (saml ''Assertion'') None # ss)
     (filter (matches (Step (samlp ''Response'') None)) [root]) =
   eval_steps ss (assertions_of root)"
  by (cases "tag root = samlp ''Response''")
     (simp_all add: eval_steps_def matches_plain eval_step_plain assertions_of_def)

lemma xpath_conditions_query: "xpath root ctx conditions_query = Inr (conditions_of root)"
proof -
  have "xlex LTop conditions_query =
      Inr [TSlash, TName ''samlp:Response'', TSlash, TName ''saml:Assertion'', TSlash,
           TName ''saml:Conditions'']"
    by (simp add: conditions_query_def char_defs)
  then have "xpath root ctx conditions_query =
      Inr (eval_steps [Step (saml ''Assertion'') None, Step (saml ''Conditions'') None]
             (filter (matches (Step (samlp ''Response'') None)) [root]))"
    by (simp add: xpath_def parse_defs char_defs saml_def samlp_def)
  then show ?thesis
    unfolding eval_from_root by (simp add: eval_steps_def eval_step_plain conditions_of_def)
qed


lemma map_node_text_audiences:
  "map node_text
     (concat (map (child_elements (saml ''Audience''))
        (concat (map (child_elements (saml ''AudienceRestriction'')) cs)))) =
   concat (map own_audiences cs)"
  by (induction cs) (simp_all add: own_audiences_def)

lemma xpath_audience_query:
  "\<exists>ns. xpath root ctx audience_query = Inr ns \<and> map node_text ns = all_audiences root"
proof -
  have "xlex LTop audience_query =
      Inr [TSlash, TName ''samlp:Response'', TSlash, TName ''saml:Assertion'', TSlash,
           TName ''saml:Conditions'', TSlash, TName ''saml:AudienceRestriction'', TSlash,
           TName ''saml:Audience'']"
    by (simp add: audience_query_def char_defs)
  then have "xpath root ctx audience_query =
      Inr (eval_steps [Step (saml ''Assertion'') None, Step (saml ''Conditions'') None,
                       Step (saml ''AudienceRestriction'') None, Step (saml ''Audience'') None]
             (filter (matches (Step (samlp ''Response'') None)) [root]))"
    by (simp add: xpath_def parse_defs char_defs saml_def samlp_def)
  then show ?thesis
    unfolding eval_from_root
    by (simp add: eval_steps_def eval_step_plain all_audiences_def
        conditions_of_def map_node_text_audiences)
qed

lemma xlex_literal:
  "q \<notin> set name \<Longrightarrow> list_all (\<lambda>c. \<not> is_control c) name \<Longrightarrow>
   xlex (LLit q acc) (name @ q # rest) = map_sum id ((#) (TLit (rev acc @ name))) (xlex LTop rest)"
  by (induction name arbitrary: acc) auto

lemma plain_nameD:
  "plain_name name \<Longrightarrow> CHR 0x22 \<notin> set name \<and> list_all (\<lambda>c. \<not> is_control c) name"
  by (induction name) (auto simp: plain_name_def)

lemma xlex_attribute_query:
  assumes "plain_name name"
  shows "xlex LTop (attribute_query name) =
      Inr [TSlash, TName ''samlp:Response'', TSlash, TName ''saml:Assertion'', TSlash,
           TName ''saml:AttributeStatement'', TSlash, TName ''saml:Attribute'', TLBrack,
           TAttr ''Name'', TEq, TLit name, TRBrack, TSlash, TName ''saml:AttributeValue'']"
proof -
  have tail: "xlex LTop '']/saml:AttributeValue'' =
      Inr [TRBrack, TSlash, TName ''saml:AttributeValue'']"
    by (simp add: char_defs)
  have a: "CHR 0x22 \<notin> set name" and b: "list_all (\<lambda>c. \<not> is_control c) name"
    using plain_nameD [OF assms] by simp_all
  have lit: "xlex (LLit CHR 0x22 []) (name @ CHR 0x22 # '']/saml:AttributeValue'') =
      Inr [TLit name, TRBrack, TSlash, TName ''saml:AttributeValue'']"
    unfolding xlex_literal [OF a b] tail by simp
  show ?thesis
    by (simp add: attribute_query_def char_defs lit)
qed

lemma eval_step_name_pred:
  "eval_step ns (Step t (Some (XEq (XAttr ''Name'') (XLit name)))) =
     filter (\<lambda>a. map_of (attrib a) ''Name'' = Some name) (concat (map (child_elements t) ns))"
proof -
  have m: "matches (Step t (Some (XEq (XAttr ''Name'') (XLit name)))) a \<longleftrightarrow>
      tag a = t \<and> map_of (attrib a) ''Name'' = Some name" for a
    by (auto simp: matches_def split: option.splits)
  have "matches (Step t (Some (XEq (XAttr ''Name'') (XLit name)))) =
      (\<lambda>a. tag a = t \<and> map_of (attrib a) ''Name'' = Some name)"
    by (simp add: fun_eq_iff m)
  then show ?thesis
    by (induction ns) (simp_all add: eval_step_def child_elements_def conj_commute)
qed

lemma xpath_attribute_query:
  assumes "plain_name name"
  shows "xpath root ctx (attribute_query name) =
     Inr (attribute_values
            (filter (\<lambda>a. map_of (attrib a) ''Name'' = Some name) (attribute_elements root)))"
proof -
  have "xpath root ctx (attribute_query name) =
      Inr (eval_steps [Step (saml ''Assertion'') None, Step (saml ''AttributeStatement'') None,
                       Step (saml ''Attribute'') (Some (XEq (XAttr ''Name'') (XLit name))),
                       Step (saml ''AttributeValue'') None]
             (filter (matches (Step (samlp ''Response'') None)) [root]))"
    by (simp add: xpath_def xlex_attribute_query [OF assms] parse_defs char_defs saml_def samlp_def)
  then show ?thesis
    unfolding eval_from_root
    by (simp add: eval_steps_def eval_step_plain eval_step_name_pred
        attribute_elements_def attribute_values_def)
qed

section \<open>The loop over the conditions\<close>

lemma condition_body_no_upper:
  "map_of (attrib c) ''NotOnOrAfter'' = None \<Longrightarrow> condition_body lib r now c flags = Inr flags"
  by (simp add: condition_body_def)

lemma conditions_loop_append:
  "conditions_loop lib r now (xs @ ys) flags =
     (case conditions_loop lib r now xs flags of
        Inl e \<Rightarrow> Inl e
      | Inr flags' \<Rightarrow> conditions_loop lib r now ys flags')"
  by (induction xs arbitrary: flags) (auto split: sum.splits)

lemma condition_body_parsed:
  assumes "map_of (attrib c) ''NotOnOrAfter'' = Some na"
    and "parse_datetime lib (effective_not_before lib now c) = Inr lower"
    and "parse_datetime lib na = Inr upper"
  shows "condition_body lib r now c (fc, fa) =
     (if lower \<le> now \<and> now < upper
      then Inr (True, fa \<or> (truthy (issuer r) \<and> issuer r \<in> set (all_audiences (document r))))
      else Inr (fc, fa))"
proof -
  obtain ns where ns: "xpath (document r) c audience_query = Inr ns"
    "map node_text ns = all_audiences (document r)"
    using xpath_audience_query by blast
  have nb: "(case map_of (attrib c) ''NotBefore'' of
        None \<Rightarrow> strftime lib (now - timedelta 0 5 0) whole_fmt | Some s \<Rightarrow> s) =
      effective_not_before lib now c"
    by (simp add: effective_not_before_def)
  show ?thesis
    using assms ns by (auto simp: condition_body_def nb Let_def)
qed

lemma window_cases:
  "well_dated lib now c \<Longrightarrow>
   map_of (attrib c) ''NotOnOrAfter'' = None \<or>
   (\<exists>na lower upper. map_of (attrib c) ''NotOnOrAfter'' = Some na \<and>
      parse_datetime lib (effective_not_before lib now c) = Inr lower \<and>
      parse_datetime lib na = Inr upper \<and> window lib now c = Some (lower, upper))"
  by (auto simp: well_dated_def window_def split: option.splits sum.splits)

lemma condition_body_well_dated:
  assumes "well_dated lib now c"
  shows "condition_body lib r now c (fc, fa) =
     Inr (fc \<or> in_window lib now c,
          fa \<or> (in_window lib now c \<and> truthy (issuer r) \<and>
                issuer r \<in> set (all_audiences (document r))))"
  using window_cases [OF assms]
proof
  assume n: "map_of (attrib c) ''NotOnOrAfter'' = None"
  then have "\<not> in_window lib now c"
    by (simp add: in_window_def window_def)
  then show ?thesis
    by (simp add: condition_body_no_upper [OF n])
next
  assume "\<exists>na lower upper. map_of (attrib c) ''NotOnOrAfter'' = Some na \<and>
      parse_datetime lib (effective_not_before lib now c) = Inr lower \<and>
      parse_datetime lib na = Inr upper \<and> window lib now c = Some (lower, upper)"
  then obtain na lower upper where h: "map_of (attrib c) ''NotOnOrAfter'' = Some na"
      "parse_datetime lib (effective_not_before lib now c) = Inr lower"
      "parse_datetime lib na = Inr upper" "window lib now c = Some (lower, upper)"
    by blast
  have "in_window lib now c \<longleftrightarrow> lower \<le> now \<and> now < upper"
    by (simp add: in_window_def h(4))
  then show ?thesis
    by (auto simp: condition_body_parsed [OF h(1,2,3)])
qed

lemma conditions_loop_well_dated:
  assumes "\<forall>c \<in> set cs. well_dated lib now c"
  shows "conditions_loop lib r now cs (fc, fa) =
     Inr (fc \<or> (\<exists>c \<in> set cs. in_window lib now c),
          fa \<or> ((\<exists>c \<in> set cs. in_window lib now c) \<and> truthy (issuer r) \<and>
                issuer r \<in> set (all_audiences (document r))))"
  using assms
proof (induction cs arbitrary: fc fa)
  case Nil
  then show ?case by simp
next
  case (Cons c cs)
  then have c: "well_dated lib now c" and cs: "\<forall>c \<in> set cs. well_dated lib now c"
    by simp_all
  show ?case
    by (simp add: condition_body_well_dated [OF c] Cons.IH [OF cs]) blast
qed

lemma fa_without_issuer:
  "\<not> truthy (issuer r) \<Longrightarrow> condition_body lib r now c (fc, fa) = Inr (fc', fa') \<Longrightarrow> fa' = fa"
  by (auto simp: condition_body_def Let_def split: option.splits sum.splits if_splits)

lemma loop_without_issuer:
  "\<not> truthy (issuer r) \<Longrightarrow> conditions_loop lib r now cs (fc, fa) = Inr (fc', fa') \<Longrightarrow> fa' = fa"
proof (induction cs arbitrary: fc fa)
  case Nil
  then show ?case by simp
next
  case (Cons c cs)
  then show ?case
    by (auto split: sum.splits dest: fa_without_issuer)
qed

lemma own_audiences_subset:
  "c \<in> set (conditions_of doc) \<Longrightarrow> set (own_audiences c) \<subseteq> set (all_audiences doc)"
  by (auto simp: all_audiences_def)

section \<open>The examples, evaluated\<close>

lemmas strptime_defs = cpython_strptime_def whole_fmt_def frac_fmt_def directive_def alt1_def
  alt2_def re_f_def lit_def to_lower_def between_def is_digit_def digit_def number_def ord_def
  field_def days_in_month_def days_in_month_tbl_def is_leap_def ymd2ord_def days_before_year_def
  days_before_month_def Let_def

lemmas strftime_defs = whole_fmt_def frac_fmt_def render_def date_of_def second_of_day_def
  ord2ymd_def pad2_def pad4_def pad6_def Let_def days_in_month_tbl_def

lemmas tree_defs = conditions_of_def assertions_of_def child_elements_def name_id_nodes_def
  attribute_elements_def attribute_values_def own_audiences_def all_audiences_def
  response_el_def conditions_el_def el_def leaf_def saml_def samlp_def clark_def

lemmas cond_defs = cond_open_def cond_other_def cond_frac_def cond_expired_def
  cond_date_only_def cond_no_lower_def cond_no_upper_def

lemma parse_whole: "strptime lib s whole_fmt = Inr t \<Longrightarrow> parse_datetime lib s = Inr t"
  by (simp add: parse_datetime_def)

lemma parse_1000: "parse_datetime cpython ''2011-06-01T10:00:00Z'' = Inr 63442519200000000"
  by (rule parse_whole) (simp add: cpython_def strptime_defs)

lemma parse_1100: "parse_datetime cpython ''2011-06-01T11:00:00Z'' = Inr 63442522800000000"
  by (rule parse_whole) (simp add: cpython_def strptime_defs)

lemma parse_1200: "parse_datetime cpython ''2011-06-01T12:00:00Z'' = Inr 63442526400000000"
  by (rule parse_whole) (simp add: cpython_def strptime_defs)

lemma parse_1210: "parse_datetime cpython ''2011-06-01T12:10:00Z'' = Inr 63442527000000000"
  by (rule parse_whole) (simp add: cpython_def strptime_defs)

lemma parse_1200_frac:
  "parse_datetime cpython ''2011-06-01T12:00:00.250Z'' = Inr 63442526400250000"
  by (simp add: parse_datetime_def cpython_def strptime_defs)

lemma strptime_date_only:
  "strptime cpython ''2011-06-02'' whole_fmt = Inl ValueError"
  "strptime cpython ''2011-06-02'' frac_fmt = Inl ValueError"
  by (simp_all add: cpython_def strptime_defs)

lemma parse_date_only: "parse_datetime cpython ''2011-06-02'' = Inl ValueError"
  by (simp add: parse_datetime_def strptime_date_only)

lemma format_1204_55:
  "strftime cpython (t_1205 - timedelta 0 5 0) whole_fmt = ''2011-06-01T12:04:55Z''"
  by (simp add: cpython_def strftime_defs t_1205_def timedelta_def)

lemma strptime_1204_55:
  "strptime cpython ''2011-06-01T12:04:55Z'' whole_fmt = Inr 63442526695000000"
  by (simp add: cpython_def strptime_defs)

lemma round_trips_1204_55: "round_trips cpython (t_1205 - timedelta 0 5 0)"
  unfolding round_trips_def format_1204_55 strptime_1204_55
  by (simp add: t_1205_def timedelta_def)

lemma attrib_conditions_el: "attrib (conditions_el attrs a) = attrs"
  by (simp add: conditions_el_def el_def)

lemma own_audiences_conditions_el: "own_audiences (conditions_el attrs a) = [Some a]"
  by (simp add: tree_defs)

lemma window_open: "window cpython t_1205 cond_open = Some (63442526400000000, 63442527000000000)"
  by (simp add: window_def effective_not_before_def cond_open_def attrib_conditions_el
      parse_1200 parse_1210)

lemma window_other: "window cpython t_1205 cond_other = Some (63442526400000000, 63442527000000000)"
  by (simp add: window_def effective_not_before_def cond_other_def attrib_conditions_el
      parse_1200 parse_1210)

lemma window_frac: "window cpython t_1205 cond_frac = Some (63442526400250000, 63442527000000000)"
  by (simp add: window_def effective_not_before_def cond_frac_def attrib_conditions_el
      parse_1200_frac parse_1210)

lemma window_expired:
  "window cpython t_1205 cond_expired = Some (63442519200000000, 63442522800000000)"
  by (simp add: window_def effective_not_before_def cond_expired_def attrib_conditions_el
      parse_1000 parse_1100)

lemma window_date_only: "window cpython t_1205 cond_date_only = None"
  by (simp add: window_def effective_not_before_def cond_date_only_def attrib_conditions_el
      parse_1200 parse_date_only)

lemma no_upper: "map_of (attrib cond_no_upper) ''NotOnOrAfter'' = None"
  by (simp add: cond_no_upper_def attrib_conditions_el)

lemma window_no_upper: "window cpython t_1205 cond_no_upper = None"
  by (simp add: window_def no_upper)

lemma well_dated_examples:
  "well_dated cpython t_1205 cond_open" "well_dated cpython t_1205 cond_other"
  "well_dated cpython t_1205 cond_frac" "well_dated cpython t_1205 cond_expired"
  "well_dated cpython t_1205 cond_no_upper"
  by (simp_all add: well_dated_def window_open window_other window_frac window_expired no_upper)

lemma in_window_examples:
  "in_window cpython t_1205 cond_open" "in_window cpython t_1205 cond_other"
  "in_window cpython t_1205 cond_frac" "\<not> in_window cpython t_1205 cond_expired"
  "\<not> in_window cpython t_1205 cond_date_only" "\<not> in_window cpython t_1205 cond_no_upper"
  unfolding in_window_def window_open window_other window_frac window_expired
    window_date_only window_no_upper
  by (simp_all add: t_1205_def)

lemma conditions_of_examples:
  "conditions_of doc_single = [cond_open]"
  "conditions_of doc_two_audiences = [cond_other, cond_expired]"
  "conditions_of doc_any = [cond_expired, cond_frac]"
  "conditions_of doc_date_only = [cond_date_only]"
  "conditions_of doc_skipped = [cond_no_upper, cond_open]"
  "conditions_of doc_empty_name_id = []"
  by (simp_all add: tree_defs cond_defs doc_single_def doc_two_audiences_def doc_any_def
      doc_date_only_def doc_skipped_def doc_empty_name_id_def)

lemma own_audiences_examples:
  "own_audiences cond_open = [Some ''sp.example.com'']"
  "own_audiences cond_other = [Some ''other.example.com'']"
  "own_audiences cond_frac = [Some ''sp.example.com'']"
  "own_audiences cond_expired = [Some ''sp.example.com'']"
  by (simp_all add: cond_defs own_audiences_conditions_el)

lemma is_valid_unfold:
  "is_valid lib r now verifier w =
     (case conditions_loop lib r now (conditions_of (document r)) (False, False) of
        Inl e \<Rightarrow> (Inl e, w)
      | Inr (foundCondition, fountConditionAndAudience) \<Rightarrow>
          if \<not> foundCondition then (Inl (ResponseConditionError ''Timmig issue''), w)
          else if \<not> fountConditionAndAudience
          then (Inl (ResponseConditionError ''Not valid Audience''), w)
          else (Inr (fst (verifier (document r) (signature r) w)),
                snd (verifier (document r) (signature r) w)))"
  by (simp add: is_valid_def xpath_conditions_query split: sum.splits prod.splits)


lemma loop_single_open:
  "conditions_loop cpython (request doc iss) t_1205 [cond_open] (False, False) =
     Inr (True, truthy iss \<and> iss \<in> set (all_audiences doc))"
  using conditions_loop_well_dated [of "[cond_open]" cpython t_1205 "request doc iss" False False]
  by (simp add: well_dated_examples in_window_examples request_def)

lemma is_valid_without_issuer:
  assumes "\<not> truthy (issuer r)"
  shows "\<exists>e. is_valid lib r now verifier w = (Inl e, w)"
proof (cases "conditions_loop lib r now (conditions_of (document r)) (False, False)")
  case (Inl e)
  then show ?thesis
    by (simp add: is_valid_unfold)
next
  case (Inr flags)
  obtain fc fa where flags: "flags = (fc, fa)"
    by (cases flags)
  have "fa = False"
    using loop_without_issuer [OF assms] Inr flags by blast
  then show ?thesis
    using Inr flags by (simp add: is_valid_unfold)
qed

section \<open>The claims\<close>

subsection \<open>C1\<close>

text \<open>
  C1. The claim: with a condition in its window and no expected issuer, the validity
  check raises no \<^verbatim>\<open>ResponseConditionError\<close> and returns the verifier's result. The code
  does not do so. At one condition in its window, no expected issuer and a verifier that
  accepts, \<open>is_valid\<close> raises \<^verbatim>\<open>ResponseConditionError('Not valid Audience')\<close> and the
  verifier has not run; \<open>is_valid_without_issuer\<close> shows that it raises on every document.
\<close>

theorem no_issuer_not_valid_audience:
  "in_window cpython t_1205 cond_open \<and>
   conditions_of doc_single = [cond_open] \<and>
   is_valid cpython (request doc_single None) t_1205 (verifier_double True) 0 =
     (Inl (ResponseConditionError ''Not valid Audience''), 0)"
  by (simp add: is_valid_unfold request_def conditions_of_examples in_window_examples
      loop_single_open [unfolded request_def] truthy_def del: conditions_loop.simps)

subsection \<open>C2\<close>

text \<open>
  C2. The claim: the expected issuer is looked up among the audiences of the condition in
  its window only. The code does not do so. Here the expected issuer is
  \<^verbatim>\<open>sp.example.com\<close>, the only condition in its window names \<^verbatim>\<open>other.example.com\<close>, and an
  expired condition names \<^verbatim>\<open>sp.example.com\<close>. The audience query is absolute, so it
  collects the audiences of both conditions, and \<open>is_valid\<close> returns what the verifier
  says.
\<close>

theorem audience_of_other_condition_accepted:
  "conditions_of doc_two_audiences = [cond_other, cond_expired] \<and>
   in_window cpython t_1205 cond_other \<and> \<not> in_window cpython t_1205 cond_expired \<and>
   own_audiences cond_other = [Some ''other.example.com''] \<and>
   own_audiences cond_expired = [Some ''sp.example.com''] \<and>
   is_valid cpython (request doc_two_audiences (Some ''sp.example.com'')) t_1205
     (verifier_double True) 0 = (Inr True, 1)"
proof -
  have "conditions_loop cpython (request doc_two_audiences (Some ''sp.example.com'')) t_1205
      [cond_other, cond_expired] (False, False) = Inr (True, True)"
    using conditions_loop_well_dated [of "[cond_other, cond_expired]" cpython t_1205
        "request doc_two_audiences (Some ''sp.example.com'')" False False]
    by (simp add: well_dated_examples in_window_examples request_def truthy_def
        all_audiences_def conditions_of_examples own_audiences_examples)
  then show ?thesis
    by (simp add: is_valid_unfold request_def conditions_of_examples in_window_examples
        own_audiences_examples verifier_double_def del: conditions_loop.simps)
qed

subsection \<open>C3\<close>



subsection \<open>C4\<close>

text \<open>
  C4 as stated fails: a condition whose \<^verbatim>\<open>NotOnOrAfter\<close> is \<^verbatim>\<open>2011-06-02\<close> makes \<open>is_valid\<close>
  raise the \<^verbatim>\<open>ValueError\<close> of \<^verbatim>\<open>strptime\<close>, not a \<^verbatim>\<open>ResponseConditionError\<close>.
\<close>

theorem parse_error_not_condition_error:
  "map_of (attrib cond_date_only) ''NotOnOrAfter'' = Some ''2011-06-02'' \<and>
   conditions_of doc_date_only = [cond_date_only] \<and>
   is_valid cpython (request doc_date_only None) t_1205 (verifier_double True) 0 =
     (Inl ValueError, 0)"
  by (simp add: is_valid_unfold request_def conditions_of_examples condition_body_def
      cond_date_only_def attrib_conditions_el parse_1200 parse_date_only)

text \<open>
  C4, amended. \<^verbatim>\<open>_parse_datetime\<close> tries the whole-second format first and, when that
  raises \<^verbatim>\<open>ValueError\<close>, the fractional one. A timestamp that matches neither format, in
  a condition element that has \<^verbatim>\<open>NotOnOrAfter\<close> and is reached without an earlier
  exception, makes \<open>is_valid\<close> raise the \<^verbatim>\<open>ValueError\<close> of the second \<^verbatim>\<open>strptime\<close> as it is,
  not a \<^verbatim>\<open>ResponseConditionError\<close>, and the verifier does not run. (\<^verbatim>\<open>NotBefore\<close> is
  parsed first; \<^verbatim>\<open>NotOnOrAfter\<close> is parsed when \<^verbatim>\<open>NotBefore\<close> parses.)
\<close>

theorem parse_error_is_value_error:
  "(strptime lib s whole_fmt = Inr t \<longrightarrow> parse_datetime lib s = Inr t) \<and>
   (strptime lib s whole_fmt = Inl ValueError \<longrightarrow>
      parse_datetime lib s = strptime lib s frac_fmt) \<and>
   (strptime lib s whole_fmt = Inl ValueError \<and> strptime lib s frac_fmt = Inl ValueError \<and>
    conditions_of (document r) = before @ c # after \<and>
    (\<forall>c' \<in> set before. well_dated lib now c') \<and>
    map_of (attrib c) ''NotOnOrAfter'' = Some na \<and>
    (effective_not_before lib now c = s \<or>
     (parse_datetime lib (effective_not_before lib now c) = Inr lower \<and> na = s)) \<longrightarrow>
      is_valid lib r now verifier w = (Inl ValueError, w))"
proof (intro conjI impI)
  assume "strptime lib s whole_fmt = Inr t"
  then show "parse_datetime lib s = Inr t"
    by (simp add: parse_datetime_def)
next
  assume "strptime lib s whole_fmt = Inl ValueError"
  then show "parse_datetime lib s = strptime lib s frac_fmt"
    by (simp add: parse_datetime_def)
next
  assume h: "strptime lib s whole_fmt = Inl ValueError \<and> strptime lib s frac_fmt = Inl ValueError \<and>
    conditions_of (document r) = before @ c # after \<and>
    (\<forall>c' \<in> set before. well_dated lib now c') \<and>
    map_of (attrib c) ''NotOnOrAfter'' = Some na \<and>
    (effective_not_before lib now c = s \<or>
     (parse_datetime lib (effective_not_before lib now c) = Inr lower \<and> na = s))"
  then have bad: "parse_datetime lib s = Inl ValueError"
    by (simp add: parse_datetime_def)
  have nb: "(case map_of (attrib c) ''NotBefore'' of
        None \<Rightarrow> strftime lib (now - timedelta 0 5 0) whole_fmt | Some s \<Rightarrow> s) =
      effective_not_before lib now c"
    by (simp add: effective_not_before_def)
  have body: "condition_body lib r now c flags = Inl ValueError" for flags
    using h bad by (auto simp: condition_body_def nb Let_def)
  obtain flags where "conditions_loop lib r now before (False, False) = Inr flags"
    using h conditions_loop_well_dated [of before lib now r False False] by blast
  then have "conditions_loop lib r now (before @ c # after) (False, False) = Inl ValueError"
    by (simp add: conditions_loop_append body)
  then show "is_valid lib r now verifier w = (Inl ValueError, w)"
    using h by (simp add: is_valid_unfold)
qed

theorem parse_error_is_value_error_witness:
  "parse_datetime cpython ''2011-06-01T12:10:00Z'' = Inr 63442527000000000 \<and>
   parse_datetime cpython ''2011-06-01T12:00:00.250Z'' = Inr 63442526400250000 \<and>
   is_valid cpython (request doc_date_only (Some ''sp.example.com'')) t_1205
     (verifier_double True) 0 = (Inl ValueError, 0)"
proof -
  have whole: "strptime cpython ''2011-06-01T12:10:00Z'' whole_fmt = Inr 63442527000000000"
    by (simp add: cpython_def strptime_defs)
  have frac: "strptime cpython ''2011-06-01T12:00:00.250Z'' whole_fmt = Inl ValueError"
    "strptime cpython ''2011-06-01T12:00:00.250Z'' frac_fmt = Inr 63442526400250000"
    by (simp_all add: cpython_def strptime_defs)
  have 1: "parse_datetime cpython ''2011-06-01T12:10:00Z'' = Inr 63442527000000000"
    by (rule parse_error_is_value_error [THEN conjunct1, THEN mp, OF whole])
  have 2: "parse_datetime cpython ''2011-06-01T12:00:00.250Z'' = Inr 63442526400250000"
    unfolding parse_error_is_value_error [THEN conjunct2, THEN conjunct1, THEN mp, OF frac(1)]
    by (rule frac(2))
  let ?r = "request doc_date_only (Some ''sp.example.com'')"
  have c: "conditions_of (document ?r) = [] @ cond_date_only # []"
    by (simp add: request_def conditions_of_examples)
  have na: "map_of (attrib cond_date_only) ''NotOnOrAfter'' = Some ''2011-06-02''"
    by (simp add: cond_date_only_def attrib_conditions_el)
  have nb: "parse_datetime cpython (effective_not_before cpython t_1205 cond_date_only) =
      Inr 63442526400000000"
    by (simp add: effective_not_before_def cond_date_only_def attrib_conditions_el parse_1200)
  have "strptime cpython ''2011-06-02'' whole_fmt = Inl ValueError \<and>
      strptime cpython ''2011-06-02'' frac_fmt = Inl ValueError \<and>
      conditions_of (document ?r) = [] @ cond_date_only # [] \<and>
      (\<forall>c' \<in> set []. well_dated cpython t_1205 c') \<and>
      map_of (attrib cond_date_only) ''NotOnOrAfter'' = Some ''2011-06-02'' \<and>
      (effective_not_before cpython t_1205 cond_date_only = ''2011-06-02'' \<or>
       (parse_datetime cpython (effective_not_before cpython t_1205 cond_date_only) =
          Inr 63442526400000000 \<and> ''2011-06-02'' = ''2011-06-02''))"
    using strptime_date_only c na nb by simp
  then have 3: "is_valid cpython ?r t_1205 (verifier_double True) 0 = (Inl ValueError, 0)"
    by (rule parse_error_is_value_error [THEN conjunct2, THEN conjunct2, THEN mp])
  show ?thesis
    using 1 2 3 by simp
qed

subsection \<open>C5\<close>

text \<open>
  C5 as stated fails twice. No condition of \<open>doc_date_only\<close> is in its window, yet
  \<open>is_valid\<close> raises \<^verbatim>\<open>ValueError\<close>, not a \<^verbatim>\<open>ResponseConditionError\<close>; and the only condition
  of \<open>doc_single\<close> is in its window, yet without an expected issuer \<open>is_valid\<close> raises.
\<close>

theorem any_condition_counterexample:
  "conditions_of doc_date_only = [cond_date_only] \<and>
   \<not> in_window cpython t_1205 cond_date_only \<and>
   fst (is_valid cpython (request doc_date_only (Some ''sp.example.com'')) t_1205
     (verifier_double True) 0) = Inl ValueError \<and>
   conditions_of doc_single = [cond_open] \<and>
   in_window cpython t_1205 cond_open \<and>
   fst (is_valid cpython (request doc_single None) t_1205 (verifier_double True) 0) =
     Inl (ResponseConditionError ''Not valid Audience'')"
proof -
  have "is_valid cpython (request doc_date_only (Some ''sp.example.com'')) t_1205
      (verifier_double True) 0 = (Inl ValueError, 0)"
    by (simp add: is_valid_unfold request_def conditions_of_examples condition_body_def
        cond_date_only_def attrib_conditions_el parse_1200 parse_date_only)
  moreover have "is_valid cpython (request doc_single None) t_1205 (verifier_double True) 0 =
      (Inl (ResponseConditionError ''Not valid Audience''), 0)"
    by (simp add: is_valid_unfold request_def conditions_of_examples
        loop_single_open [unfolded request_def] truthy_def del: conditions_loop.simps)
  ultimately show ?thesis
    by (simp add: conditions_of_examples in_window_examples)
qed

text \<open>
  C5, amended. For a document whose conditions raise no parse error (each lacks
  \<^verbatim>\<open>NotOnOrAfter\<close> or has two timestamps that parse): if no condition is in its window,
  \<open>is_valid\<close> raises \<^verbatim>\<open>ResponseConditionError('Timmig issue')\<close>; and if an expected issuer is
  supplied and one condition is in its window and names that issuer among its audiences,
  \<open>is_valid\<close> returns what the verifier says, whatever the other conditions are.
\<close>

theorem any_condition_suffices:
  assumes "\<forall>c \<in> set (conditions_of (document r)). well_dated lib now c"
  shows "((\<forall>c \<in> set (conditions_of (document r)). \<not> in_window lib now c) \<longrightarrow>
       is_valid lib r now verifier w = (Inl (ResponseConditionError ''Timmig issue''), w)) \<and>
    (truthy (issuer r) \<and>
     (\<exists>c \<in> set (conditions_of (document r)).
        in_window lib now c \<and> issuer r \<in> set (own_audiences c)) \<longrightarrow>
       is_valid lib r now verifier w =
         (Inr (fst (verifier (document r) (signature r) w)),
          snd (verifier (document r) (signature r) w)))"
proof (intro conjI impI)
  assume "\<forall>c \<in> set (conditions_of (document r)). \<not> in_window lib now c"
  then show "is_valid lib r now verifier w = (Inl (ResponseConditionError ''Timmig issue''), w)"
    by (simp add: is_valid_unfold conditions_loop_well_dated [OF assms])
next
  assume h: "truthy (issuer r) \<and>
     (\<exists>c \<in> set (conditions_of (document r)).
        in_window lib now c \<and> issuer r \<in> set (own_audiences c))"
  then obtain c where c: "c \<in> set (conditions_of (document r))" "in_window lib now c"
      "issuer r \<in> set (own_audiences c)"
    by blast
  have found: "\<exists>c \<in> set (conditions_of (document r)). in_window lib now c"
    using c by blast
  have aud: "issuer r \<in> set (all_audiences (document r))"
    using own_audiences_subset [OF c(1)] c(3) by blast
  show "is_valid lib r now verifier w =
         (Inr (fst (verifier (document r) (signature r) w)),
          snd (verifier (document r) (signature r) w))"
    using h found aud by (simp add: is_valid_unfold conditions_loop_well_dated [OF assms])
qed

theorem any_condition_suffices_witness:
  "is_valid cpython (request doc_any (Some ''sp.example.com'')) t_1205 (verifier_double True) 0 =
     (Inr True, 1) \<and>
   is_valid cpython (request doc_any (Some ''sp.example.com'')) 63442527000000000
     (verifier_double True) 0 = (Inl (ResponseConditionError ''Timmig issue''), 0)"
proof -
  let ?r = "request doc_any (Some ''sp.example.com'')"
  have wd: "\<forall>c \<in> set (conditions_of (document ?r)). well_dated cpython t_1205 c"
    by (simp add: request_def conditions_of_examples well_dated_examples)
  have ok: "truthy (issuer ?r) \<and>
     (\<exists>c \<in> set (conditions_of (document ?r)).
        in_window cpython t_1205 c \<and> issuer ?r \<in> set (own_audiences c))"
    by (simp add: request_def conditions_of_examples in_window_examples own_audiences_examples
        truthy_def)
  have 1: "is_valid cpython ?r t_1205 (verifier_double True) 0 = (Inr True, 1)"
    using any_condition_suffices [OF wd, of "verifier_double True" 0] ok
    by (simp add: verifier_double_def)
  have w_exp: "window cpython 63442527000000000 cond_expired =
      Some (63442519200000000, 63442522800000000)"
    by (simp add: window_def effective_not_before_def cond_expired_def attrib_conditions_el
        parse_1000 parse_1100)
  have w_frac: "window cpython 63442527000000000 cond_frac =
      Some (63442526400250000, 63442527000000000)"
    by (simp add: window_def effective_not_before_def cond_frac_def attrib_conditions_el
        parse_1200_frac parse_1210)
  have wd': "\<forall>c \<in> set (conditions_of (document ?r)). well_dated cpython 63442527000000000 c"
    by (simp add: request_def conditions_of_examples well_dated_def w_exp w_frac)
  have none: "\<forall>c \<in> set (conditions_of (document ?r)). \<not> in_window cpython 63442527000000000 c"
    by (simp add: request_def conditions_of_examples in_window_def w_exp w_frac)
  have 2: "is_valid cpython ?r 63442527000000000 (verifier_double True) 0 =
      (Inl (ResponseConditionError ''Timmig issue''), 0)"
    using any_condition_suffices [OF wd', of "verifier_double True" 0] none by blast
  show ?thesis
    using 1 2 by simp
qed

subsection \<open>C6\<close>

text \<open>
  C6. For a condition element whose \<^verbatim>\<open>NotOnOrAfter\<close> parses to \<open>upper\<close>: when \<^verbatim>\<open>NotBefore\<close>
  is present and parses to \<open>lower\<close>, the condition is counted as in its window exactly when
  \<open>lower \<le> now < upper\<close>; when \<^verbatim>\<open>NotBefore\<close> is absent, the lower bound is what the library
  reads back from the formatted \<open>now - 5s\<close>, which is not after \<open>now - 5s\<close>, so the lower
  test always holds and the condition is counted exactly when \<open>now < upper\<close>, that is when
  \<open>now - 5s \<le> now < upper\<close>.
\<close>

theorem counted_iff_in_window:
  assumes "map_of (attrib c) ''NotOnOrAfter'' = Some na"
    and "parse_datetime lib na = Inr upper"
  shows "(map_of (attrib c) ''NotBefore'' = Some nb \<and> parse_datetime lib nb = Inr lower \<longrightarrow>
      (counted lib r now c \<longleftrightarrow> lower \<le> now \<and> now < upper)) \<and>
    (map_of (attrib c) ''NotBefore'' = None \<and> round_trips lib (now - timedelta 0 5 0) \<longrightarrow>
      (counted lib r now c \<longleftrightarrow> now < upper) \<and>
      (counted lib r now c \<longleftrightarrow> now - timedelta 0 5 0 \<le> now \<and> now < upper))"
proof (intro conjI impI)
  assume h: "map_of (attrib c) ''NotBefore'' = Some nb \<and> parse_datetime lib nb = Inr lower"
  then have "parse_datetime lib (effective_not_before lib now c) = Inr lower"
    by (simp add: effective_not_before_def)
  then show "counted lib r now c \<longleftrightarrow> lower \<le> now \<and> now < upper"
    by (simp add: counted_def condition_body_parsed [OF assms(1) _ assms(2)])
next
  assume h: "map_of (attrib c) ''NotBefore'' = None \<and> round_trips lib (now - timedelta 0 5 0)"
  define t where "t = now - timedelta 0 5 0"
  have t: "t - t mod 1000000 \<le> now"
    by (simp add: t_def timedelta_def)
  from h have "parse_datetime lib (effective_not_before lib now c) = Inr (t - t mod 1000000)"
    by (simp add: effective_not_before_def round_trips_def parse_datetime_def t_def)
  then have c: "counted lib r now c \<longleftrightarrow> now < upper"
    using t by (simp add: counted_def condition_body_parsed [OF assms(1) _ assms(2)])
  show "counted lib r now c \<longleftrightarrow> now < upper"
    by (rule c)
  show "counted lib r now c \<longleftrightarrow> now - timedelta 0 5 0 \<le> now \<and> now < upper"
    by (simp add: c timedelta_def)
qed

theorem counted_iff_in_window_witness:
  "counted cpython (request doc_single None) t_1205 cond_open \<and>
   \<not> counted cpython (request doc_single None) 63442527000000000 cond_open \<and>
   \<not> counted cpython (request doc_single None) 63442526399999999 cond_open \<and>
   counted cpython (request doc_single None) t_1205 cond_no_lower"
proof -
  have na: "map_of (attrib cond_open) ''NotOnOrAfter'' = Some ''2011-06-01T12:10:00Z''"
    and nb: "map_of (attrib cond_open) ''NotBefore'' = Some ''2011-06-01T12:00:00Z''"
    by (simp_all add: cond_open_def attrib_conditions_el)
  have na': "map_of (attrib cond_no_lower) ''NotOnOrAfter'' = Some ''2011-06-01T12:10:00Z''"
    and nb': "map_of (attrib cond_no_lower) ''NotBefore'' = None"
    by (simp_all add: cond_no_lower_def attrib_conditions_el)
  have window: "counted cpython (request doc_single None) now cond_open \<longleftrightarrow>
      63442526400000000 \<le> now \<and> now < 63442527000000000" for now
    using counted_iff_in_window [OF na parse_1210] nb parse_1200 by blast
  have "counted cpython (request doc_single None) t_1205 cond_no_lower \<longleftrightarrow>
      t_1205 < 63442527000000000"
    using counted_iff_in_window [OF na' parse_1210] nb' round_trips_1204_55 by blast
  then show ?thesis
    by (simp add: window t_1205_def)
qed

subsection \<open>C7\<close>



subsection \<open>C8\<close>




subsection \<open>C9\<close>

text \<open>
  C9 as stated fails: no \<^verbatim>\<open>Attribute\<close> element of \<open>doc_single\<close> has the name \<^verbatim>\<open>"\<close> (one
  double quote), yet reading the values of that name raises \<^verbatim>\<open>XPathEvalError\<close>.
\<close>

theorem absent_attribute_raises:
  "map (\<lambda>a. map_of (attrib a) ''Name'') (attribute_elements doc_single) =
     [Some ''mail'', Some ''role''] \<and>
   get_assertion_attribute_value (request doc_single None) [CHR 0x22] = Inl XPathEvalError"
proof -
  have "xlex LTop (attribute_query [CHR 0x22]) = Inl XPathEvalError"
    by (simp add: attribute_query_def char_defs is_control_def)
  then show ?thesis
    by (simp add: get_assertion_attribute_value_def xpath_def tree_defs doc_single_def cond_defs)
qed

text \<open>
  C9, amended. For an attribute name that contains no double quote (and no control
  character) and is the \<^verbatim>\<open>Name\<close> of no \<^verbatim>\<open>Attribute\<close> element of the document, reading the
  attribute's values returns the empty list and raises nothing.
\<close>

theorem absent_attribute_empty:
  assumes "plain_name attribute_name"
    and "\<forall>a \<in> set (attribute_elements (document r)). map_of (attrib a) ''Name'' \<noteq> Some attribute_name"
  shows "get_assertion_attribute_value r attribute_name = Inr []"
proof -
  have "filter (\<lambda>a. map_of (attrib a) ''Name'' = Some attribute_name)
      (attribute_elements (document r)) = []"
    using assms(2) by (simp add: filter_empty_conv)
  then show ?thesis
    by (simp add: get_assertion_attribute_value_def xpath_attribute_query [OF assms(1)]
        attribute_values_def)
qed

theorem absent_attribute_empty_witness:
  "get_assertion_attribute_value (request doc_single None) ''phone'' = Inr [] \<and>
   get_assertion_attribute_value (request doc_any None) ''mail'' = Inr []"
proof -
  have p: "plain_name ''phone''" "plain_name ''mail''"
    by (simp_all add: plain_name_def is_control_def ord_def)
  have a: "\<forall>a \<in> set (attribute_elements (document (request doc_single None))).
      map_of (attrib a) ''Name'' \<noteq> Some ''phone''"
    by (simp add: request_def tree_defs doc_single_def cond_defs)
  have b: "\<forall>a \<in> set (attribute_elements (document (request doc_any None))).
      map_of (attrib a) ''Name'' \<noteq> Some ''mail''"
    by (simp add: request_def tree_defs doc_any_def cond_defs)
  show ?thesis
    using absent_attribute_empty [OF p(1) a] absent_attribute_empty [OF p(2) b] by simp
qed

subsection \<open>C10\<close>

text \<open>
  C10. The attribute name is pasted into the query as it is. For every document, the
  name \<^verbatim>\<open>"\<close> (one double quote) leaves a string literal of the query open, and the lookup
  raises \<^verbatim>\<open>XPathEvalError\<close>; and the name \<^verbatim>\<open>x" or "1"="1\<close> turns the predicate into one that
  holds for every \<^verbatim>\<open>Attribute\<close> element, so the lookup returns the values of all attributes,
  where the name \<^verbatim>\<open>x\<close> alone selects the attributes called \<^verbatim>\<open>x\<close>.
\<close>

theorem attribute_name_injection:
  "CHR 0x22 \<in> set [CHR 0x22] \<and>
   get_assertion_attribute_value r [CHR 0x22] = Inl XPathEvalError \<and>
   CHR 0x22 \<in> set crafted_name \<and>
   get_assertion_attribute_value r crafted_name =
     strip_texts (attribute_values (attribute_elements (document r))) \<and>
   get_assertion_attribute_value r ''x'' =
     strip_texts (attribute_values
       (filter (\<lambda>a. map_of (attrib a) ''Name'' = Some ''x'') (attribute_elements (document r))))"
proof -
  have 1: "xlex LTop (attribute_query [CHR 0x22]) = Inl XPathEvalError"
    by (simp add: attribute_query_def char_defs is_control_def)
  have 2: "xlex LTop (attribute_query crafted_name) =
      Inr [TSlash, TName ''samlp:Response'', TSlash, TName ''saml:Assertion'', TSlash,
           TName ''saml:AttributeStatement'', TSlash, TName ''saml:Attribute'', TLBrack,
           TAttr ''Name'', TEq, TLit ''x'', TName ''or'', TLit ''1'', TEq, TLit ''1'', TRBrack,
           TSlash, TName ''saml:AttributeValue'']"
    by (simp add: attribute_query_def crafted_name_def char_defs is_control_def)
  have 3: "xpath root ctx (attribute_query crafted_name) =
      Inr (eval_steps [Step (saml ''Assertion'') None, Step (saml ''AttributeStatement'') None,
                       Step (saml ''Attribute'')
                         (Some (XOr (XEq (XAttr ''Name'') (XLit ''x''))
                                    (XEq (XLit ''1'') (XLit ''1'')))),
                       Step (saml ''AttributeValue'') None]
             (filter (matches (Step (samlp ''Response'') None)) [root]))" for root ctx
    by (simp add: xpath_def 2 parse_defs char_defs saml_def samlp_def)
  have m: "matches (Step t (Some (XOr (XEq (XAttr ''Name'') (XLit ''x''))
                                    (XEq (XLit ''1'') (XLit ''1''))))) = (\<lambda>a. tag a = t)" for t
    by (simp add: fun_eq_iff matches_def)
  have 4: "eval_step ns (Step t (Some (XOr (XEq (XAttr ''Name'') (XLit ''x''))
                                    (XEq (XLit ''1'') (XLit ''1''))))) =
      concat (map (child_elements t) ns)" for ns t
    by (induction ns) (simp_all add: eval_step_def m child_elements_def)
  have 5: "xpath root ctx (attribute_query crafted_name) =
      Inr (attribute_values (attribute_elements root))" for root ctx
    unfolding 3 eval_from_root
    by (simp add: eval_steps_def eval_step_plain 4 attribute_elements_def attribute_values_def)
  have 6: "plain_name ''x''"
    by (simp add: plain_name_def is_control_def ord_def)
  have a: "get_assertion_attribute_value r [CHR 0x22] = Inl XPathEvalError"
    by (simp add: get_assertion_attribute_value_def xpath_def 1)
  have b: "get_assertion_attribute_value r crafted_name =
      strip_texts (attribute_values (attribute_elements (document r)))"
    by (simp add: get_assertion_attribute_value_def 5)
  have c: "get_assertion_attribute_value r ''x'' =
      strip_texts (attribute_values
        (filter (\<lambda>a. map_of (attrib a) ''Name'' = Some ''x'') (attribute_elements (document r))))"
    by (simp add: get_assertion_attribute_value_def xpath_attribute_query [OF 6])
  have d: "CHR 0x22 \<in> set crafted_name"
    by (simp add: crafted_name_def)
  show ?thesis
    using a b c d by simp
qed

theorem attribute_name_injection_witness:
  "get_assertion_attribute_value (request doc_single None) [CHR 0x22] = Inl XPathEvalError \<and>
   get_assertion_attribute_value (request doc_single None) crafted_name =
     Inr [''a@example.com'', ''b@example.com'', ''admin''] \<and>
   get_assertion_attribute_value (request doc_single None) ''x'' = Inr []"
  using attribute_name_injection [of "request doc_single None"]
  by (simp add: request_def tree_defs doc_single_def cond_defs strip_def is_space_def)

end
